theory Spec2Isabelle
  imports Main "HOL-Library.List_Lexorder" "HOL-Library.Char_ord"
begin

section \<open>JavaScript values\<close>

text \<open>
  Documents, filters and update specifications are JavaScript values. The model covers the
  values that \<^verbatim>\<open>JSON.parse\<close> produces. \<^verbatim>\<open>undefined\<close> is not a value of the datatype:
  a read that may yield it has type \<open>json option\<close> and \<open>None\<close> stands for it.

  Conventions of the model:
  \<^item> a number is an \<open>int\<close>: arithmetic is exact, so rounding, \<^verbatim>\<open>NaN\<close> and the infinities of
    IEEE doubles are outside the model;
  \<^item> a string is the list of its characters, and its \<^verbatim>\<open>length\<close> is the length of the list;
  \<^item> an object is the list of its own properties in the order in which \<^verbatim>\<open>Object.entries\<close>
    enumerates them; a property is read by its first occurrence, so a list with repeated
    keys behaves like the object holding the first value of each key;
  \<^item> values are immutable trees. The source copies a document shallowly and then writes
    into nested objects in place; the model rebuilds the path instead, so it describes the
    value returned by a call and not the sharing between that value and its argument;
  \<^item> property reads see own properties only: the members that every JavaScript value
    inherits (\<^verbatim>\<open>constructor\<close>, \<^verbatim>\<open>toString\<close>, \<^verbatim>\<open>length\<close> of arrays and strings, and so on)
    read as \<^verbatim>\<open>undefined\<close>;
  \<^item> an array is indexed by the decimal strings \<^verbatim>\<open>"0"\<close>, \<^verbatim>\<open>"1"\<close>, ...; a write to another key
    of an array (a named property or an index past the end, which would leave holes) has no
    JSON value and leaves the array as it is, and deleting an element leaves \<^verbatim>\<open>null\<close>, as
    \<^verbatim>\<open>JSON.stringify\<close> prints the hole.
\<close>

datatype json =
    JNull
  | JBool bool
  | JNum int
  | JStr string
  | JArr "json list"
  | JObj "(string \<times> json) list"

definition digit_char :: "nat \<Rightarrow> char" where
  "digit_char d = ''0123456789'' ! d"

fun show_nat :: "nat \<Rightarrow> string" where
  "show_nat n = (if n < 10 then [digit_char n] else show_nat (n div 10) @ [digit_char (n mod 10)])"

declare show_nat.simps [simp del]

definition show_int :: "int \<Rightarrow> string" where
  "show_int i = (if i < 0 then CHR ''-'' # show_nat (nat (- i)) else show_nat (nat i))"

text \<open>The index keys of an array or a string, paired with the elements, from index \<open>i\<close> on.\<close>

fun indexed :: "nat \<Rightarrow> 'a list \<Rightarrow> (string \<times> 'a) list" where
  "indexed i [] = []"
| "indexed i (x # xs) = (show_nat i, x) # indexed (Suc i) xs"

text \<open>\<^verbatim>\<open>Object.entries(v)\<close>; \<^verbatim>\<open>Object.keys\<close> and \<^verbatim>\<open>Object.values\<close> are its projections.\<close>

fun entries :: "json \<Rightarrow> (string \<times> json) list" where
  "entries (JObj kvs) = kvs"
| "entries (JArr xs) = indexed 0 xs"
| "entries (JStr s) = indexed 0 (map (\<lambda>c. JStr [c]) s)"
| "entries _ = []"

definition keys :: "json \<Rightarrow> string list" where
  "keys v = map fst (entries v)"

definition vals :: "json \<Rightarrow> json list" where
  "vals v = map snd (entries v)"

text \<open>\<^verbatim>\<open>v[key]\<close>, with \<open>None\<close> for \<^verbatim>\<open>undefined\<close>.\<close>

definition js_get :: "json \<Rightarrow> string \<Rightarrow> json option" where
  "js_get v key = map_of (entries v) key"

text \<open>The truth value of \<open>v\<close> in a condition.\<close>

fun truthy :: "json \<Rightarrow> bool" where
  "truthy JNull = False"
| "truthy (JBool b) = b"
| "truthy (JNum n) = (n \<noteq> 0)"
| "truthy (JStr s) = (s \<noteq> [])"
| "truthy (JArr xs) = True"
| "truthy (JObj kvs) = True"

definition truthy_opt :: "json option \<Rightarrow> bool" where
  "truthy_opt v = (case v of None \<Rightarrow> False | Some x \<Rightarrow> truthy x)"

text \<open>\<^verbatim>\<open>typeof v\<close>, and the test \<^verbatim>\<open>typeof v === 'object' && v !== null\<close>.\<close>

fun typeof :: "json \<Rightarrow> string" where
  "typeof JNull = ''object''"
| "typeof (JBool b) = ''boolean''"
| "typeof (JNum n) = ''number''"
| "typeof (JStr s) = ''string''"
| "typeof (JArr xs) = ''object''"
| "typeof (JObj kvs) = ''object''"

fun is_object :: "json \<Rightarrow> bool" where
  "is_object (JArr xs) = True"
| "is_object (JObj kvs) = True"
| "is_object _ = False"

text \<open>\<^verbatim>\<open>String(v)\<close>: an array joins its elements with commas, \<^verbatim>\<open>null\<close> elements as the empty string.\<close>

fun js_String :: "json \<Rightarrow> string" and join_elems :: "json list \<Rightarrow> string" where
  "js_String JNull = ''null''"
| "js_String (JBool b) = (if b then ''true'' else ''false'')"
| "js_String (JNum n) = show_int n"
| "js_String (JStr s) = s"
| "js_String (JArr xs) = join_elems xs"
| "js_String (JObj kvs) = ''[object Object]''"
| "join_elems [] = []"
| "join_elems [x] = (if x = JNull then [] else js_String x)"
| "join_elems (x # y # ys) = (if x = JNull then [] else js_String x) @ '','' @ join_elems (y # ys)"

definition String_opt :: "json option \<Rightarrow> string" where
  "String_opt v = (case v of None \<Rightarrow> ''undefined'' | Some x \<Rightarrow> js_String x)"

text \<open>\<^verbatim>\<open>obj[key] = value\<close> on an object: the value is replaced where the key is, or the
  property is added at the end.\<close>

fun upd :: "string \<Rightarrow> json \<Rightarrow> (string \<times> json) list \<Rightarrow> (string \<times> json) list" where
  "upd k v [] = [(k, v)]"
| "upd k v (p # ps) = (if fst p = k then (k, v) # ps else p # upd k v ps)"

fun assign_index :: "nat \<Rightarrow> json list \<Rightarrow> string \<Rightarrow> json \<Rightarrow> json list" where
  "assign_index i [] k v = (if k = show_nat i then [v] else [])"
| "assign_index i (x # xs) k v = (if k = show_nat i then v # xs else x # assign_index (Suc i) xs k v)"

fun assign :: "json \<Rightarrow> string \<Rightarrow> json \<Rightarrow> json" where
  "assign (JObj kvs) k v = JObj (upd k v kvs)"
| "assign (JArr xs) k v = JArr (assign_index 0 xs k v)"
| "assign c k v = c"

text \<open>\<^verbatim>\<open>delete obj[key]\<close>.\<close>

fun remove_index :: "nat \<Rightarrow> json list \<Rightarrow> string \<Rightarrow> json list" where
  "remove_index i [] k = []"
| "remove_index i (x # xs) k = (if k = show_nat i then JNull # xs else x # remove_index (Suc i) xs k)"

fun remove :: "json \<Rightarrow> string \<Rightarrow> json" where
  "remove (JObj kvs) k = JObj (filter (\<lambda>p. fst p \<noteq> k) kvs)"
| "remove (JArr xs) k = JArr (remove_index 0 xs k)"
| "remove c k = c"

text \<open>\<^verbatim>\<open>path.split('.')\<close>: never empty; the empty path is the one empty segment.\<close>

fun split_dot :: "string \<Rightarrow> string list" where
  "split_dot [] = [[]]"
| "split_dot (c # cs) =
     (if c = CHR ''.'' then [] # split_dot cs
      else (case split_dot cs of [] \<Rightarrow> [[c]] | s # ss \<Rightarrow> (c # s) # ss))"

definition startsWith_dollar :: "string \<Rightarrow> bool" where
  "startsWith_dollar k = (case k of [] \<Rightarrow> False | c # cs \<Rightarrow> c = CHR ''$'')"

section \<open>Errors\<close>

text \<open>
  The classes of \<^verbatim>\<open>types/index.ts\<close>, each with its message: \<open>Error\<close> is the built-in class
  (a \<^verbatim>\<open>TypeError\<close> or \<^verbatim>\<open>SyntaxError\<close> of the runtime is one of its instances), \<open>ValidationError\<close>,
  \<open>AuthenticationError\<close> and \<open>NetworkError\<close> extend \<open>DiscordDBError\<close>, and \<open>Thrown\<close> is a thrown
  value that is no \<^verbatim>\<open>Error\<close>, with the text \<^verbatim>\<open>String\<close> gives it.
\<close>

datatype error =
    Error string
  | DiscordDBError string
  | ValidationError string
  | AuthenticationError string
  | NetworkError string
  | Thrown string

section \<open>The update engine (\<^verbatim>\<open>utils/updates.ts\<close>)\<close>

definition get_step :: "json option \<Rightarrow> string \<Rightarrow> json option" where
  "get_step current key =
     (case current of
        None \<Rightarrow> None
      | Some c \<Rightarrow> if truthy c then js_get c key else None)"

definition getNestedValue :: "json \<Rightarrow> string \<Rightarrow> json option" where
  "getNestedValue obj path = foldl get_step (Some obj) (split_dot path)"

text \<open>One step of the loop of \<^verbatim>\<open>setNestedValue\<close>: the object to continue in, which is a fresh
  \<^verbatim>\<open>{}\<close> unless the key holds an object or an array.\<close>

definition descend :: "json \<Rightarrow> string \<Rightarrow> json" where
  "descend current key =
     (case js_get current key of
        None \<Rightarrow> JObj []
      | Some c \<Rightarrow> if is_object c then c else JObj [])"

fun set_path :: "json \<Rightarrow> string list \<Rightarrow> json \<Rightarrow> json" where
  "set_path current [] v = current"
| "set_path current [k] v = assign current k v"
| "set_path current (k # k' # ks) v = assign current k (set_path (descend current k) (k' # ks) v)"

definition setNestedValue :: "json \<Rightarrow> string \<Rightarrow> json \<Rightarrow> json" where
  "setNestedValue obj path v = set_path obj (split_dot path) v"

fun unset_path :: "json \<Rightarrow> string list \<Rightarrow> json" where
  "unset_path current [] = current"
| "unset_path current [k] = remove current k"
| "unset_path current (k # k' # ks) =
     (case js_get current k of
        None \<Rightarrow> current
      | Some c \<Rightarrow> if is_object c then assign current k (unset_path c (k' # ks)) else current)"

definition unsetNestedValue :: "json \<Rightarrow> string \<Rightarrow> json" where
  "unsetNestedValue obj path = unset_path obj (split_dot path)"

text \<open>
  \<^verbatim>\<open>deepEqual\<close>. On primitives \<^verbatim>\<open>a === b\<close> is equality of values; on two references to one
  object the structural comparison below answers \<^verbatim>\<open>true\<close> as well. Two arrays are compared
  element by element; an array and an object, or two objects, by the keys of the first.
\<close>

fun deepEqual :: "json \<Rightarrow> json \<Rightarrow> bool"
  and deepEqual_list :: "json list \<Rightarrow> json list \<Rightarrow> bool"
  and deepEqual_keys :: "(string \<times> json) list \<Rightarrow> json \<Rightarrow> bool"
  and deepEqual_idx :: "nat \<Rightarrow> json list \<Rightarrow> json \<Rightarrow> bool" where
  "deepEqual (JArr xs) (JArr ys) = (length xs = length ys \<and> deepEqual_list xs ys)"
| "deepEqual (JArr xs) (JObj kvs) = (length xs = length kvs \<and> deepEqual_idx 0 xs (JObj kvs))"
| "deepEqual (JObj kvs) (JArr ys) = (length kvs = length ys \<and> deepEqual_keys kvs (JArr ys))"
| "deepEqual (JObj kvs) (JObj kvs') = (length kvs = length kvs' \<and> deepEqual_keys kvs (JObj kvs'))"
| "deepEqual a b = (a = b)"
| "deepEqual_list [] ys = True"
| "deepEqual_list (x # xs) [] = False"
| "deepEqual_list (x # xs) (y # ys) = (deepEqual x y \<and> deepEqual_list xs ys)"
| "deepEqual_keys [] b = True"
| "deepEqual_keys ((k, v) # es) b =
     ((case js_get b k of None \<Rightarrow> False | Some w \<Rightarrow> deepEqual v w) \<and> deepEqual_keys es b)"
| "deepEqual_idx i [] b = True"
| "deepEqual_idx i (x # xs) b =
     ((case js_get b (show_nat i) of None \<Rightarrow> False | Some w \<Rightarrow> deepEqual x w) \<and> deepEqual_idx (Suc i) xs b)"

definition isUpdateOperators :: "json \<Rightarrow> bool" where
  "isUpdateOperators update = (is_object update \<and> list_ex startsWith_dollar (keys update))"

text \<open>The six operator groups, each a \<^verbatim>\<open>forEach\<close> over the entries of its operand.\<close>

definition apply_set :: "json \<Rightarrow> json \<Rightarrow> json" where
  "apply_set doc operand = foldl (\<lambda>d (key, v). setNestedValue d key v) doc (entries operand)"

definition apply_unset :: "json \<Rightarrow> json \<Rightarrow> json" where
  "apply_unset doc operand = foldl (\<lambda>d key. unsetNestedValue d key) doc (keys operand)"

definition inc_one :: "json \<Rightarrow> string \<Rightarrow> json \<Rightarrow> json" where
  "inc_one d key increment =
     (let currentValue = (case getNestedValue d key of
                            None \<Rightarrow> JNum 0
                          | Some c \<Rightarrow> if truthy c then c else JNum 0)
      in case (currentValue, increment) of
           (JNum c, JNum i) \<Rightarrow> setNestedValue d key (JNum (c + i))
         | _ \<Rightarrow> d)"

definition apply_inc :: "json \<Rightarrow> json \<Rightarrow> json" where
  "apply_inc doc operand = foldl (\<lambda>d (key, increment). inc_one d key increment) doc (entries operand)"

definition push_one :: "json \<Rightarrow> string \<Rightarrow> json \<Rightarrow> json" where
  "push_one d key v =
     (case getNestedValue d key of
        Some (JArr xs) \<Rightarrow> setNestedValue d key (JArr (xs @ [v]))
      | _ \<Rightarrow> setNestedValue d key (JArr [v]))"

definition apply_push :: "json \<Rightarrow> json \<Rightarrow> json" where
  "apply_push doc operand = foldl (\<lambda>d (key, v). push_one d key v) doc (entries operand)"

definition pull_one :: "json \<Rightarrow> string \<Rightarrow> json \<Rightarrow> json" where
  "pull_one d key v =
     (case getNestedValue d key of
        Some (JArr xs) \<Rightarrow> setNestedValue d key (JArr (filter (\<lambda>item. \<not> deepEqual item v) xs))
      | _ \<Rightarrow> d)"

definition apply_pull :: "json \<Rightarrow> json \<Rightarrow> json" where
  "apply_pull doc operand = foldl (\<lambda>d (key, v). pull_one d key v) doc (entries operand)"

definition addToSet_one :: "json \<Rightarrow> string \<Rightarrow> json \<Rightarrow> json" where
  "addToSet_one d key v =
     (case getNestedValue d key of
        Some (JArr xs) \<Rightarrow>
          if list_ex (\<lambda>item. deepEqual item v) xs then d
          else setNestedValue d key (JArr (xs @ [v]))
      | _ \<Rightarrow> setNestedValue d key (JArr [v]))"

definition apply_addToSet :: "json \<Rightarrow> json \<Rightarrow> json" where
  "apply_addToSet doc operand = foldl (\<lambda>d (key, v). addToSet_one d key v) doc (entries operand)"

text \<open>\<^verbatim>\<open>if (operators.$op) { ... }\<close>: the group runs when the operand is there and truthy.\<close>

definition when_present :: "json \<Rightarrow> string \<Rightarrow> (json \<Rightarrow> json \<Rightarrow> json) \<Rightarrow> json \<Rightarrow> json" where
  "when_present operators name step doc =
     (case js_get operators name of
        None \<Rightarrow> doc
      | Some operand \<Rightarrow> if truthy operand then step doc operand else doc)"

text \<open>\<^verbatim>\<open>{ ...a, ...b }\<close> on an object \<open>a\<close>.\<close>

definition spread :: "json \<Rightarrow> json \<Rightarrow> json" where
  "spread a b = foldl (\<lambda>d (key, v). assign d key v) a (entries b)"

definition applyUpdate :: "json \<Rightarrow> json \<Rightarrow> json" where
  "applyUpdate document update =
     (let updatedDoc = JObj (entries document) in
      if \<not> isUpdateOperators update then spread updatedDoc update
      else
        (when_present update ''$addToSet'' apply_addToSet
        (when_present update ''$pull'' apply_pull
        (when_present update ''$push'' apply_push
        (when_present update ''$inc'' apply_inc
        (when_present update ''$unset'' apply_unset
        (when_present update ''$set'' apply_set updatedDoc)))))))"

text \<open>\<^verbatim>\<open>validateUpdate\<close>: \<open>Inl\<close> is the error thrown, \<open>Inr ()\<close> the normal return. The loops stop
  at the first operand that is refused.\<close>

definition dquote :: char where
  "dquote = CHR 0x22"

fun validate_inc :: "(string \<times> json) list \<Rightarrow> error + unit" where
  "validate_inc [] = Inr ()"
| "validate_inc ((key, v) # es) =
     (if typeof v \<noteq> ''number''
      then Inl (Error (''$inc operator requires numeric values. Got '' @ typeof v @
                       '' for field '' @ [dquote] @ key @ [dquote]))
      else validate_inc es)"

fun validate_unset :: "(string \<times> json) list \<Rightarrow> error + unit" where
  "validate_unset [] = Inr ()"
| "validate_unset ((key, v) # es) =
     (if v \<noteq> JNum 1 \<and> v \<noteq> JBool True
      then Inl (Error (''$unset operator requires value 1 or true. Got '' @ js_String v @
                       '' for field '' @ [dquote] @ key @ [dquote]))
      else validate_unset es)"

definition validate_group ::
  "json \<Rightarrow> string \<Rightarrow> ((string \<times> json) list \<Rightarrow> error + unit) \<Rightarrow> error + unit" where
  "validate_group operators name check =
     (case js_get operators name of
        None \<Rightarrow> Inr ()
      | Some operand \<Rightarrow> if truthy operand then check (entries operand) else Inr ())"

definition validateUpdate :: "json \<Rightarrow> error + unit" where
  "validateUpdate update =
     (if \<not> truthy update \<or> typeof update \<noteq> ''object'' then Inl (Error ''Update must be an object'')
      else if isUpdateOperators update then
        (case validate_group update ''$inc'' validate_inc of
           Inl e \<Rightarrow> Inl e
         | Inr u \<Rightarrow> validate_group update ''$unset'' validate_unset)
      else Inr ())"

section \<open>The runtime\<close>

text \<open>
  What the source takes from the JavaScript runtime and its library is a parameter of the
  model:
  \<^item> \<open>JSON_parse\<close> is \<^verbatim>\<open>JSON.parse\<close>, with \<open>None\<close> where it throws a \<^verbatim>\<open>SyntaxError\<close>;
  \<^item> \<open>JSON_stringify\<close> is \<^verbatim>\<open>JSON.stringify\<close>;
  \<^item> \<open>regex_test pattern flags s\<close> is \<^verbatim>\<open>new RegExp(pattern, flags).test(s)\<close>, with \<open>Inl\<close> the
    error that the constructor throws on a pattern or flags it refuses;
  \<^item> \<open>localeCompare\<close> is \<^verbatim>\<open>String.prototype.localeCompare\<close>;
  \<^item> \<open>string_to_number\<close> is the conversion of a string to a number, with \<open>None\<close> for \<^verbatim>\<open>NaN\<close>.
\<close>

record platform =
  JSON_parse :: "string \<Rightarrow> json option"
  JSON_stringify :: "json \<Rightarrow> string"
  regex_test :: "json \<Rightarrow> json option \<Rightarrow> string \<Rightarrow> error + bool"
  localeCompare :: "string \<Rightarrow> string \<Rightarrow> int"
  string_to_number :: "string \<Rightarrow> int option"

text \<open>
  The relational operators \<^verbatim>\<open><\<close> and \<^verbatim>\<open><=\<close>: an object or an array is first converted to its
  string; two strings are compared by their characters; otherwise both sides are converted
  to numbers, and a comparison with \<^verbatim>\<open>NaN\<close> is false.
\<close>

fun to_primitive :: "json \<Rightarrow> json" where
  "to_primitive (JArr xs) = JStr (js_String (JArr xs))"
| "to_primitive (JObj kvs) = JStr (js_String (JObj kvs))"
| "to_primitive v = v"

fun to_number :: "platform \<Rightarrow> json option \<Rightarrow> int option" where
  "to_number P None = None"
| "to_number P (Some JNull) = Some 0"
| "to_number P (Some (JBool b)) = Some (if b then 1 else 0)"
| "to_number P (Some (JNum n)) = Some n"
| "to_number P (Some (JStr s)) = string_to_number P s"
| "to_number P (Some v) = string_to_number P (js_String v)"

definition js_less :: "platform \<Rightarrow> json option \<Rightarrow> json option \<Rightarrow> bool" where
  "js_less P a b =
     (case (map_option to_primitive a, map_option to_primitive b) of
        (Some (JStr s), Some (JStr t)) \<Rightarrow> s < t
      | (pa, pb) \<Rightarrow>
          (case (to_number P pa, to_number P pb) of
             (Some x, Some y) \<Rightarrow> x < y
           | _ \<Rightarrow> False))"

definition js_less_eq :: "platform \<Rightarrow> json option \<Rightarrow> json option \<Rightarrow> bool" where
  "js_less_eq P a b =
     (case (map_option to_primitive a, map_option to_primitive b) of
        (Some (JStr s), Some (JStr t)) \<Rightarrow> s \<le> t
      | (pa, pb) \<Rightarrow>
          (case (to_number P pa, to_number P pb) of
             (Some x, Some y) \<Rightarrow> x \<le> y
           | _ \<Rightarrow> False))"

section \<open>The filter engine (\<^verbatim>\<open>utils/filters.ts\<close>)\<close>

text \<open>
  \<^verbatim>\<open>compareValues\<close>. No JSON value is a \<^verbatim>\<open>Date\<close> or a \<^verbatim>\<open>RegExp\<close>, so these two branches of
  the source never fire; the others are those of \<^verbatim>\<open>deepEqual\<close>. A side that is
  \<^verbatim>\<open>undefined\<close> equals only \<^verbatim>\<open>undefined\<close>.
\<close>

fun compareJson :: "json \<Rightarrow> json \<Rightarrow> bool"
  and compare_list :: "json list \<Rightarrow> json list \<Rightarrow> bool"
  and compare_keys :: "(string \<times> json) list \<Rightarrow> json \<Rightarrow> bool"
  and compare_idx :: "nat \<Rightarrow> json list \<Rightarrow> json \<Rightarrow> bool" where
  "compareJson (JArr xs) (JArr ys) = (length xs = length ys \<and> compare_list xs ys)"
| "compareJson (JArr xs) (JObj kvs) = (length xs = length kvs \<and> compare_idx 0 xs (JObj kvs))"
| "compareJson (JObj kvs) (JArr ys) = (length kvs = length ys \<and> compare_keys kvs (JArr ys))"
| "compareJson (JObj kvs) (JObj kvs') = (length kvs = length kvs' \<and> compare_keys kvs (JObj kvs'))"
| "compareJson a b = (a = b)"
| "compare_list [] ys = True"
| "compare_list (x # xs) [] = False"
| "compare_list (x # xs) (y # ys) = (compareJson x y \<and> compare_list xs ys)"
| "compare_keys [] b = True"
| "compare_keys ((k, v) # es) b =
     ((case js_get b k of None \<Rightarrow> False | Some w \<Rightarrow> compareJson v w) \<and> compare_keys es b)"
| "compare_idx i [] b = True"
| "compare_idx i (x # xs) b =
     ((case js_get b (show_nat i) of None \<Rightarrow> False | Some w \<Rightarrow> compareJson x w) \<and> compare_idx (Suc i) xs b)"

definition compareValues :: "json option \<Rightarrow> json option \<Rightarrow> bool" where
  "compareValues a b =
     (case (a, b) of
        (None, None) \<Rightarrow> True
      | (Some x, Some y) \<Rightarrow> compareJson x y
      | _ \<Rightarrow> False)"

text \<open>The document \<^verbatim>\<open>{ docValue }\<close> that the field-level \<^verbatim>\<open>$not\<close> builds.\<close>

definition wrap_docValue :: "json option \<Rightarrow> json" where
  "wrap_docValue docValue =
     (case docValue of None \<Rightarrow> JObj [] | Some v \<Rightarrow> JObj [(''docValue'', v)])"

text \<open>
  \<^verbatim>\<open>matchesFilter\<close>, \<^verbatim>\<open>evaluateFieldFilter\<close> and \<^verbatim>\<open>evaluateOperators\<close>. The result is \<open>Inl\<close> when
  the evaluation throws, which only the \<^verbatim>\<open>RegExp\<close> constructor does. \<open>matches_entries\<close> is
  the \<^verbatim>\<open>every\<close> over the entries of a filter object, \<open>matches_indexed\<close> the one over the
  entries of an array given as a filter, \<open>every_filter\<close> and \<open>some_filter\<close> the loops of
  \<^verbatim>\<open>$and\<close> and \<^verbatim>\<open>$or\<close>, and \<open>eval_entries\<close> the \<^verbatim>\<open>every\<close> of \<^verbatim>\<open>evaluateOperators\<close>, which
  carries \<^verbatim>\<open>operators.$options\<close> along. Each stops at the first entry that decides it.
\<close>

fun matchesFilter :: "platform \<Rightarrow> json \<Rightarrow> json \<Rightarrow> error + bool"
  and matches_entries :: "platform \<Rightarrow> json \<Rightarrow> (string \<times> json) list \<Rightarrow> error + bool"
  and matches_indexed :: "platform \<Rightarrow> json \<Rightarrow> nat \<Rightarrow> json list \<Rightarrow> error + bool"
  and every_filter :: "platform \<Rightarrow> json \<Rightarrow> json list \<Rightarrow> error + bool"
  and some_filter :: "platform \<Rightarrow> json \<Rightarrow> json list \<Rightarrow> error + bool"
  and evaluateFieldFilter :: "platform \<Rightarrow> json \<Rightarrow> string \<Rightarrow> json \<Rightarrow> error + bool"
  and eval_entries :: "platform \<Rightarrow> json option \<Rightarrow> json option \<Rightarrow> (string \<times> json) list \<Rightarrow> error + bool"
where
  "matchesFilter P document (JObj kvs) =
     (if kvs = [] then Inr True else matches_entries P document kvs)"
| "matchesFilter P document (JArr xs) =
     (if xs = [] then Inr True else matches_indexed P document 0 xs)"
| "matchesFilter P document (JStr s) =
     Inr (list_all (\<lambda>(key, v). compareValues (getNestedValue document key) (Some v))
            (entries (JStr s)))"
| "matchesFilter P document f = Inr True"
| "matches_entries P document [] = Inr True"
| "matches_entries P document ((key, v) # es) =
     (case (if key = ''$and'' then
              (case v of JArr subs \<Rightarrow> every_filter P document subs | _ \<Rightarrow> Inr False)
            else if key = ''$or'' then
              (case v of JArr subs \<Rightarrow> some_filter P document subs | _ \<Rightarrow> Inr False)
            else if key = ''$not'' then
              (case matchesFilter P document v of Inl e \<Rightarrow> Inl e | Inr b \<Rightarrow> Inr (\<not> b))
            else evaluateFieldFilter P document key v) of
        Inl e \<Rightarrow> Inl e
      | Inr b \<Rightarrow> if b then matches_entries P document es else Inr False)"
| "matches_indexed P document i [] = Inr True"
| "matches_indexed P document i (v # vs) =
     (case evaluateFieldFilter P document (show_nat i) v of
        Inl e \<Rightarrow> Inl e
      | Inr b \<Rightarrow> if b then matches_indexed P document (Suc i) vs else Inr False)"
| "every_filter P document [] = Inr True"
| "every_filter P document (f # fs) =
     (case matchesFilter P document f of
        Inl e \<Rightarrow> Inl e
      | Inr b \<Rightarrow> if b then every_filter P document fs else Inr False)"
| "some_filter P document [] = Inr False"
| "some_filter P document (f # fs) =
     (case matchesFilter P document f of
        Inl e \<Rightarrow> Inl e
      | Inr b \<Rightarrow> if b then Inr True else some_filter P document fs)"
| "evaluateFieldFilter P document key (JObj ops) =
     eval_entries P (getNestedValue document key) (js_get (JObj ops) ''$options'') ops"
| "evaluateFieldFilter P document key filterValue =
     Inr (compareValues (getNestedValue document key) (Some filterValue))"
| "eval_entries P docValue options [] = Inr True"
| "eval_entries P docValue options ((operator, operatorValue) # es) =
     (case (if operator = ''$eq'' then Inr (compareValues docValue (Some operatorValue))
            else if operator = ''$ne'' then Inr (\<not> compareValues docValue (Some operatorValue))
            else if operator = ''$gt'' then Inr (js_less P (Some operatorValue) docValue)
            else if operator = ''$gte'' then Inr (js_less_eq P (Some operatorValue) docValue)
            else if operator = ''$lt'' then Inr (js_less P docValue (Some operatorValue))
            else if operator = ''$lte'' then Inr (js_less_eq P docValue (Some operatorValue))
            else if operator = ''$in'' then
              (case operatorValue of
                 JArr vs \<Rightarrow> Inr (list_ex (\<lambda>v. compareValues docValue (Some v)) vs)
               | _ \<Rightarrow> Inr False)
            else if operator = ''$nin'' then
              (case operatorValue of
                 JArr vs \<Rightarrow> Inr (\<not> list_ex (\<lambda>v. compareValues docValue (Some v)) vs)
               | _ \<Rightarrow> Inr False)
            else if operator = ''$exists'' then
              Inr (if truthy operatorValue then docValue \<noteq> None else docValue = None)
            else if operator = ''$regex'' then
              regex_test P operatorValue options (String_opt docValue)
            else if operator = ''$and'' then Inr True
            else if operator = ''$or'' then Inr True
            else if operator = ''$not'' then
              (case matchesFilter P (wrap_docValue docValue) operatorValue of
                 Inl e \<Rightarrow> Inl e
               | Inr b \<Rightarrow> Inr (\<not> b))
            else Inr True) of
        Inl e \<Rightarrow> Inl e
      | Inr b \<Rightarrow> if b then eval_entries P docValue options es else Inr False)"

section \<open>Sorting, projection and pagination (\<^verbatim>\<open>utils/filters.ts\<close>)\<close>

text \<open>
  \<^verbatim>\<open>compareForSort\<close>. The values compared are read from two different documents, so two
  objects or arrays are never the same reference and \<^verbatim>\<open>a === b\<close> holds for equal
  primitives and for two \<^verbatim>\<open>undefined\<close> only.
\<close>

definition compareForSort :: "platform \<Rightarrow> json option \<Rightarrow> json option \<Rightarrow> int" where
  "compareForSort P a b =
     (if a = b \<and> (case a of None \<Rightarrow> True | Some v \<Rightarrow> \<not> is_object v) then 0
      else if a = Some JNull \<or> a = None then - 1
      else if b = Some JNull \<or> b = None then 1
      else (case (a, b) of
              (Some (JStr s), Some (JStr t)) \<Rightarrow> localeCompare P s t
            | (Some (JNum x), Some (JNum y)) \<Rightarrow> x - y
            | _ \<Rightarrow> localeCompare P (String_opt a) (String_opt b)))"

definition normalizeSortDirection :: "json \<Rightarrow> int" where
  "normalizeSortDirection direction =
     (if direction = JNum 1 \<or> direction = JStr ''asc'' then 1
      else if direction = JNum (- 1) \<or> direction = JStr ''desc'' then - 1
      else 1)"

text \<open>The comparator that \<^verbatim>\<open>sortDocuments\<close> passes to \<^verbatim>\<open>sort\<close>: the first sort key on
  which the two documents differ decides.\<close>

fun sort_compare :: "platform \<Rightarrow> (string \<times> json) list \<Rightarrow> json \<Rightarrow> json \<Rightarrow> int" where
  "sort_compare P [] a b = 0"
| "sort_compare P ((field, direction) # es) a b =
     (let comparison = compareForSort P (getNestedValue a field) (getNestedValue b field)
      in if comparison \<noteq> 0 then comparison * normalizeSortDirection direction
         else sort_compare P es a b)"

text \<open>
  \<^verbatim>\<open>Array.prototype.sort\<close> with a comparator is a stable sort; it is modelled by a stable
  insertion sort. On a comparator that is no consistent ordering the language leaves the
  order of the result open, and the model picks the one of the insertion sort.
\<close>

fun insert_by :: "('a \<Rightarrow> 'a \<Rightarrow> int) \<Rightarrow> 'a \<Rightarrow> 'a list \<Rightarrow> 'a list" where
  "insert_by cmp x [] = [x]"
| "insert_by cmp x (y # ys) = (if cmp x y \<le> 0 then x # y # ys else y # insert_by cmp x ys)"

definition js_sort :: "('a \<Rightarrow> 'a \<Rightarrow> int) \<Rightarrow> 'a list \<Rightarrow> 'a list" where
  "js_sort cmp xs = foldr (insert_by cmp) xs []"

definition sortDocuments :: "platform \<Rightarrow> json list \<Rightarrow> json \<Rightarrow> json list" where
  "sortDocuments P documents sortOption =
     (if \<not> truthy sortOption \<or> keys sortOption = [] then documents
      else js_sort (sort_compare P (entries sortOption)) documents)"

text \<open>\<^verbatim>\<open>projected[key] = v\<close> where \<open>v\<close> may be \<^verbatim>\<open>undefined\<close>: a property holding
  \<^verbatim>\<open>undefined\<close> reads like an absent one and is modelled as absent.\<close>

definition assign_opt :: "json \<Rightarrow> string \<Rightarrow> json option \<Rightarrow> json" where
  "assign_opt obj key v = (case v of None \<Rightarrow> remove obj key | Some x \<Rightarrow> assign obj key x)"

definition project_inclusive :: "json \<Rightarrow> json \<Rightarrow> json" where
  "project_inclusive projection doc =
     (let projected =
            foldl (\<lambda>acc (key, include).
                     if include = JNum 1 then assign_opt acc key (getNestedValue doc key) else acc)
                  (JObj []) (entries projection)
      in if js_get projection ''_id'' \<noteq> Some (JNum 0)
         then assign_opt projected ''_id'' (js_get doc ''_id'')
         else projected)"

definition project_exclusive :: "json \<Rightarrow> json \<Rightarrow> json" where
  "project_exclusive projection doc =
     foldl (\<lambda>acc (key, exclude). if exclude = JNum 0 then remove acc key else acc)
           (JObj (entries doc)) (entries projection)"

definition applyProjection :: "json list \<Rightarrow> json \<Rightarrow> json list" where
  "applyProjection documents projection =
     (if \<not> truthy projection \<or> keys projection = [] then documents
      else if list_ex (\<lambda>val. val = JNum 1) (vals projection)
           then map (project_inclusive projection) documents
           else map (project_exclusive projection) documents)"

text \<open>\<^verbatim>\<open>xs.slice(start, end)\<close> on integers: a negative index counts from the end.\<close>

definition slice_index :: "int \<Rightarrow> nat \<Rightarrow> nat" where
  "slice_index k n = (if k < 0 then nat (max (int n + k) 0) else min (nat k) n)"

definition slice :: "'a list \<Rightarrow> int \<Rightarrow> int option \<Rightarrow> 'a list" where
  "slice xs start end =
     (let from = slice_index start (length xs);
          to = (case end of None \<Rightarrow> length xs | Some e \<Rightarrow> slice_index e (length xs))
      in take (to - from) (drop from xs))"

definition applyPagination :: "json list \<Rightarrow> int option \<Rightarrow> int option \<Rightarrow> json list" where
  "applyPagination documents skip limit =
     (let result = slice documents (case skip of None \<Rightarrow> 0 | Some k \<Rightarrow> k) None
      in case limit of None \<Rightarrow> result | Some l \<Rightarrow> slice result 0 (Some l))"

section \<open>The encrypted payload (\<^verbatim>\<open>utils/encryption.ts\<close>)\<close>

text \<open>\<^verbatim>\<open>EncryptionService.isEncrypted\<close>: the shape test of an encrypted payload.\<close>

definition isEncrypted :: "json \<Rightarrow> bool" where
  "isEncrypted data =
     (typeof data = ''object'' \<and> data \<noteq> JNull \<and>
      js_get data ''encrypted'' = Some (JBool True) \<and>
      (case js_get data ''data'' of Some v \<Rightarrow> typeof v = ''string'' | None \<Rightarrow> False) \<and>
      (case js_get data ''iv'' of Some v \<Rightarrow> typeof v = ''string'' | None \<Rightarrow> False))"

text \<open>
  A \<^verbatim>\<open>Buffer\<close> is a list of bytes. \<^verbatim>\<open>buf.toString('hex')\<close> writes two lower-case digits for
  each byte; \<^verbatim>\<open>Buffer.from(s, 'hex')\<close> reads pairs of digits of either case and stops at
  the first pair that is not one.
\<close>

type_synonym bytes = "char list"

definition hex_digit :: "nat \<Rightarrow> char" where
  "hex_digit n = ''0123456789abcdef'' ! n"

definition hex_value :: "char \<Rightarrow> nat option" where
  "hex_value c = map_of (zip ''0123456789abcdefABCDEF'' ([0 ..< 16] @ [10 ..< 16])) c"

definition to_hex :: "bytes \<Rightarrow> string" where
  "to_hex bs = concat (map (\<lambda>b. [hex_digit (of_char b div 16), hex_digit (of_char b mod 16)]) bs)"

fun from_hex :: "string \<Rightarrow> bytes" where
  "from_hex (h # l # rest) =
     (case (hex_value h, hex_value l) of
        (Some x, Some y) \<Rightarrow> char_of (16 * x + y) # from_hex rest
      | _ \<Rightarrow> [])"
| "from_hex s = []"

text \<open>
  The module \<^verbatim>\<open>crypto\<close> of the runtime is a parameter of the model, as the rest of the
  runtime is: \<open>sha256\<close> is \<^verbatim>\<open>createHash('sha256').update(s).digest()\<close>;
  \<open>cipher algorithm key iv text\<close> is the output of \<^verbatim>\<open>update\<close> and \<^verbatim>\<open>final\<close> together of
  \<^verbatim>\<open>createCipheriv(algorithm, key, iv)\<close> on the UTF-8 bytes of the text; and \<open>decipher\<close>
  is the same for \<^verbatim>\<open>createDecipheriv\<close>, from bytes to the text they encode. \<open>Inl\<close> is the
  error a call throws. The 16 bytes of \<^verbatim>\<open>randomBytes(16)\<close> are an argument of \<open>encrypt\<close>.
  A text is well-formed: a lone surrogate, which UTF-8 cannot carry, is outside the model.
\<close>

record crypto =
  sha256 :: "string \<Rightarrow> bytes"
  cipher :: "string \<Rightarrow> bytes \<Rightarrow> bytes \<Rightarrow> string \<Rightarrow> error + bytes"
  decipher :: "string \<Rightarrow> bytes \<Rightarrow> bytes \<Rightarrow> bytes \<Rightarrow> error + string"

record EncryptedData =
  data :: string
  iv :: string
  encrypted :: bool

record EncryptionService =
  service_key :: bytes
  algorithm :: string

definition deriveKey :: "crypto \<Rightarrow> string \<Rightarrow> bytes" where
  "deriveKey cr encryptionKey = sha256 cr encryptionKey"

definition new_EncryptionService :: "crypto \<Rightarrow> string \<Rightarrow> string option \<Rightarrow> EncryptionService" where
  "new_EncryptionService cr encryptionKey option_algorithm =
     \<lparr>service_key = deriveKey cr encryptionKey,
      algorithm = (case option_algorithm of
                     None \<Rightarrow> ''aes-256-cbc''
                   | Some a \<Rightarrow> if a = [] then ''aes-256-cbc'' else a)\<rparr>"

definition error_message :: "error \<Rightarrow> string" where
  "error_message e =
     (case e of
        Error m \<Rightarrow> m
      | DiscordDBError m \<Rightarrow> m
      | ValidationError m \<Rightarrow> m
      | AuthenticationError m \<Rightarrow> m
      | NetworkError m \<Rightarrow> m
      | Thrown t \<Rightarrow> ''Unknown error'')"

definition service_encrypt :: "crypto \<Rightarrow> EncryptionService \<Rightarrow> bytes \<Rightarrow> string \<Rightarrow> error + EncryptedData" where
  "service_encrypt cr service random_iv plaintext =
     (case cipher cr (algorithm service) (service_key service) random_iv plaintext of
        Inl e \<Rightarrow> Inl (Error (''Encryption failed: '' @ error_message e))
      | Inr c \<Rightarrow> Inr \<lparr>data = to_hex c, iv = to_hex random_iv, encrypted = True\<rparr>)"

definition service_decrypt :: "crypto \<Rightarrow> EncryptionService \<Rightarrow> EncryptedData \<Rightarrow> error + string" where
  "service_decrypt cr service encryptedData =
     (case decipher cr (algorithm service) (service_key service) (from_hex (iv encryptedData))
             (from_hex (data encryptedData)) of
        Inl e \<Rightarrow> Inl (Error (''Decryption failed: '' @ error_message e))
      | Inr plaintext \<Rightarrow> Inr plaintext)"

definition encrypt :: "crypto \<Rightarrow> bytes \<Rightarrow> string \<Rightarrow> string \<Rightarrow> error + EncryptedData" where
  "encrypt cr random_iv plaintext encryptionKey =
     service_encrypt cr (new_EncryptionService cr encryptionKey None) random_iv plaintext"

definition decrypt :: "crypto \<Rightarrow> EncryptedData \<Rightarrow> string \<Rightarrow> error + string" where
  "decrypt cr encryptedData encryptionKey =
     service_decrypt cr (new_EncryptionService cr encryptionKey None) encryptedData"

text \<open>The object that \<^verbatim>\<open>encrypt\<close> returns, as a value.\<close>

definition payload_json :: "EncryptedData \<Rightarrow> json" where
  "payload_json p = JObj [(''data'', JStr (data p)), (''iv'', JStr (iv p)), (''encrypted'', JBool (encrypted p))]"

text \<open>
  What the encryption layer relies on from the module \<^verbatim>\<open>crypto\<close>: a SHA-256 digest has 32
  bytes; \<^verbatim>\<open>aes-256-cbc\<close> with a key of 32 bytes and an initialization vector of 16 bytes
  encrypts every text; and deciphering with the key and the vector of the encryption
  gives the text back.
\<close>

definition crypto_contract :: "crypto \<Rightarrow> bool" where
  "crypto_contract cr =
     ((\<forall>s. length (sha256 cr s) = 32) \<and>
      (\<forall>k v p. length k = 32 \<and> length v = 16 \<longrightarrow> (\<exists>c. cipher cr ''aes-256-cbc'' k v p = Inr c)) \<and>
      (\<forall>k v p c. cipher cr ''aes-256-cbc'' k v p = Inr c \<longrightarrow> decipher cr ''aes-256-cbc'' k v c = Inr p))"

section \<open>The document store (\<^verbatim>\<open>discord-db.ts\<close>)\<close>

text \<open>
  The transport is the collaborator \<^verbatim>\<open>DiscordClient\<close>. Its calls go to a remote service,
  so the model takes them as functions on an arbitrary state \<open>'w\<close> of the outside world: each
  returns the message or the error of the call and the next state of the world. The id
  passed to \<^verbatim>\<open>editMessage\<close> and \<^verbatim>\<open>deleteMessage\<close> is read from a document and may be
  \<^verbatim>\<open>undefined\<close>.
\<close>

record message =
  msg_id :: string
  msg_content :: string
  msg_timestamp :: string

record 'w client =
  editMessage :: "json option \<Rightarrow> string \<Rightarrow> 'w \<Rightarrow> (error + message) \<times> 'w"
  deleteMessage :: "json option \<Rightarrow> 'w \<Rightarrow> (error + unit) \<times> 'w"
  getAllMessages :: "'w \<Rightarrow> (error + message list) \<times> 'w"

datatype call =
    GetAllMessages
  | EditMessage "json option" string
  | DeleteMessage "json option"

text \<open>
  The fields of a \<^verbatim>\<open>DiscordDB\<close>: the cache is a \<^verbatim>\<open>Map\<close> from \<^verbatim>\<open>_id\<close> to document, kept as
  the list of its entries in insertion order; \<open>world\<close> is the state behind the client; and
  \<open>dispatched\<close> records, in order, the calls made to the client. The last field is not in
  the source: it is there to state which calls an operation makes. Keys of the cache are
  compared by value, as a \<^verbatim>\<open>Map\<close> compares strings and the other primitives.
\<close>

record 'w store =
  cache :: "(json option \<times> json) list"
  lastCacheUpdate :: int
  cacheTimeout :: int
  world :: 'w
  dispatched :: "call list"

fun cache_set :: "(json option \<times> json) list \<Rightarrow> json option \<Rightarrow> json \<Rightarrow> (json option \<times> json) list" where
  "cache_set [] k v = [(k, v)]"
| "cache_set (p # ps) k v = (if fst p = k then (k, v) # ps else p # cache_set ps k v)"


record query_options =
  limit :: "int option"
  skip :: "int option"
  sort_option :: "json option"
  projection :: "json option"

record find_result =
  documents :: "json list"
  total :: nat
  hasMore :: bool




definition handleError :: "error \<Rightarrow> error" where
  "handleError e =
     (case e of
        Error m \<Rightarrow> DiscordDBError m
      | Thrown t \<Rightarrow> DiscordDBError (''Unknown error: '' @ t)
      | _ \<Rightarrow> e)"

definition is_space :: "char \<Rightarrow> bool" where
  "is_space c = (c \<in> set [CHR 0x09, CHR 0x0A, CHR 0x0B, CHR 0x0C, CHR 0x0D, CHR 0x20])"

text \<open>\<^verbatim>\<open>!content.trim()\<close>.\<close>

definition blank :: "string \<Rightarrow> bool" where
  "blank content = list_all is_space content"

text \<open>
  The body of the loop of \<^verbatim>\<open>getAllDocuments\<close> for one message, on the documents and the
  cache collected so far. The \<^verbatim>\<open>catch\<close> of the loop skips the message when \<^verbatim>\<open>JSON.parse\<close>
  throws, and when the parsed value is \<^verbatim>\<open>null\<close> or another primitive, on which the write of
  \<^verbatim>\<open>_messageId\<close> throws; such a value has no \<^verbatim>\<open>_id\<close> either, so the test of \<^verbatim>\<open>_id\<close> below
  skips it as well.
\<close>

definition load_message ::
  "platform \<Rightarrow> json list \<times> (json option \<times> json) list \<Rightarrow> message \<Rightarrow>
   json list \<times> (json option \<times> json) list" where
  "load_message P acc m =
     (if blank (msg_content m) then acc
      else (case JSON_parse P (msg_content m) of
              None \<Rightarrow> acc
            | Some v \<Rightarrow>
                let doc = assign (assign v ''_messageId'' (JStr (msg_id m)))
                                 ''_timestamp'' (JStr (msg_timestamp m))
                in if truthy_opt (js_get doc ''_id'')
                   then (fst acc @ [doc], cache_set (snd acc) (js_get doc ''_id'') doc)
                   else acc))"

definition getAllDocuments ::
  "platform \<Rightarrow> 'w client \<Rightarrow> int \<Rightarrow> 'w store \<Rightarrow> (error + json list) \<times> 'w store" where
  "getAllDocuments P C now s =
     (if now - lastCacheUpdate s < cacheTimeout s \<and> cache s \<noteq> [] then (Inr (map snd (cache s)), s)
      else (case getAllMessages C (world s) of
              (Inl e, w) \<Rightarrow>
                (Inl (handleError e), s\<lparr>world := w, dispatched := dispatched s @ [GetAllMessages]\<rparr>)
            | (Inr messages, w) \<Rightarrow>
                let loaded = foldl (load_message P) ([], []) messages
                in (Inr (fst loaded),
                    s\<lparr>cache := snd loaded, lastCacheUpdate := now, world := w,
                      dispatched := dispatched s @ [GetAllMessages]\<rparr>)))"

text \<open>\<^verbatim>\<open>documents.filter(doc => matchesFilter(doc, filter))\<close>, which stops at the first
  document on which the filter throws.\<close>

fun filter_docs :: "platform \<Rightarrow> json \<Rightarrow> json list \<Rightarrow> error + json list" where
  "filter_docs P fltr [] = Inr []"
| "filter_docs P fltr (doc # docs) =
     (case matchesFilter P doc fltr of
        Inl e \<Rightarrow> Inl e
      | Inr b \<Rightarrow>
          (case filter_docs P fltr docs of
             Inl e \<Rightarrow> Inl e
           | Inr rest \<Rightarrow> Inr (if b then doc # rest else rest)))"

definition find_docs ::
  "platform \<Rightarrow> 'w client \<Rightarrow> int \<Rightarrow> json \<Rightarrow> query_options \<Rightarrow> 'w store \<Rightarrow>
   (error + find_result) \<times> 'w store" where
  "find_docs P C now fltr options s =
     (case getAllDocuments P C now s of
        (Inl e, s1) \<Rightarrow> (Inl (handleError e), s1)
      | (Inr docs, s1) \<Rightarrow>
          (case filter_docs P fltr docs of
             Inl e \<Rightarrow> (Inl (handleError e), s1)
           | Inr filteredDocs \<Rightarrow>
               let sorted = (if truthy_opt (sort_option options)
                             then sortDocuments P filteredDocs (the (sort_option options))
                             else filteredDocs);
                   n = length sorted;
                   page = applyPagination sorted (skip options) (limit options);
                   projected = (if truthy_opt (projection options)
                                then applyProjection page (the (projection options))
                                else page)
               in (Inr \<lparr>documents = projected, total = n,
                        hasMore = (case limit options of
                                     None \<Rightarrow> False
                                   | Some l \<Rightarrow>
                                       if l = 0 then False
                                       else (case skip options of None \<Rightarrow> 0 | Some k \<Rightarrow> k)
                                              + int (length projected) < int n)\<rparr>,
                   s1)))"






section \<open>Notions used to state the properties\<close>

text \<open>An update specification whose top-level keys mix operator keys with other keys.\<close>

definition mixed_shape :: "json \<Rightarrow> bool" where
  "mixed_shape update =
     (list_ex startsWith_dollar (keys update) \<and> list_ex (\<lambda>k. \<not> startsWith_dollar k) (keys update))"

text \<open>The operands that \<^verbatim>\<open>validateUpdate\<close> looks at: every operand of \<^verbatim>\<open>$inc\<close> is a number
  and every operand of \<^verbatim>\<open>$unset\<close> is \<^verbatim>\<open>1\<close> or \<^verbatim>\<open>true\<close>.\<close>

definition operands_valid :: "json \<Rightarrow> bool" where
  "operands_valid update =
     ((case js_get update ''$inc'' of
         None \<Rightarrow> True
       | Some operand \<Rightarrow>
           truthy operand \<longrightarrow> list_all (\<lambda>(key, v). typeof v = ''number'') (entries operand)) \<and>
      (case js_get update ''$unset'' of
         None \<Rightarrow> True
       | Some operand \<Rightarrow>
           truthy operand \<longrightarrow> list_all (\<lambda>(key, v). v = JNum 1 \<or> v = JBool True) (entries operand)))"

definition mixed_update :: json where
  "mixed_update = JObj [(''$set'', JObj [(''a'', JNum 1)]), (''b'', JNum 2)]"

text \<open>The path of \<^verbatim>\<open>getNestedValue\<close> resolved segment by segment: the recursive form of its
  \<^verbatim>\<open>reduce\<close>.\<close>

fun resolve :: "json \<Rightarrow> string list \<Rightarrow> json option" where
  "resolve c [] = Some c"
| "resolve c (k # ks) =
     (if truthy c then (case js_get c k of None \<Rightarrow> None | Some c' \<Rightarrow> resolve c' ks) else None)"

text \<open>
  The fields that an update specification addresses. A path addresses the field named by
  its first segment. An operator-style specification addresses the fields of the paths in
  its six operator groups; a direct specification addresses its own keys, which
  \<^verbatim>\<open>applyUpdate\<close> merges as they are, without splitting them.
\<close>

definition first_segment :: "string \<Rightarrow> string" where
  "first_segment path = takeWhile (\<lambda>c. c \<noteq> CHR ''.'') path"




text \<open>The two specifications \<^verbatim>\<open>{ $push: { f: v } }\<close> and \<^verbatim>\<open>{ $pull: { f: v } }\<close>.\<close>

definition push_spec :: "string \<Rightarrow> json \<Rightarrow> json" where
  "push_spec f v = JObj [(''$push'', JObj [(f, v)])]"

definition pull_spec :: "string \<Rightarrow> json \<Rightarrow> json" where
  "pull_spec f v = JObj [(''$pull'', JObj [(f, v)])]"

text \<open>
  For the field-level \<^verbatim>\<open>$not\<close>: an operator key is a key that begins with \<^verbatim>\<open>$\<close> and is none of
  the three logical keys; a literal operand is any value but an object; and
  \<open>field_not f op\<close> is the filter \<^verbatim>\<open>{ f: { $not: op } }\<close>.
\<close>

definition operator_key :: "string \<Rightarrow> bool" where
  "operator_key k = (startsWith_dollar k \<and> k \<noteq> ''$and'' \<and> k \<noteq> ''$or'' \<and> k \<noteq> ''$not'')"

fun literal :: "json \<Rightarrow> bool" where
  "literal (JObj kvs) = False"
| "literal v = True"

definition field_not :: "string \<Rightarrow> json \<Rightarrow> json" where
  "field_not f op = JObj [(f, JObj [(''$not'', op)])]"


definition matching :: "platform \<Rightarrow> json \<Rightarrow> json list \<Rightarrow> json list" where
  "matching P fltr docs = filter (\<lambda>d. matchesFilter P d fltr = Inr True) docs"

section \<open>A sample runtime and a sample transport\<close>

text \<open>
  The properties below hold for every runtime and every client. To run the model on
  concrete inputs, here is one of each. \<open>stringify_plain\<close> writes the JSON text of a value
  as \<^verbatim>\<open>JSON.stringify\<close> does when no string of the value needs an escape; \<open>parse_known\<close> is
  \<^verbatim>\<open>JSON.parse\<close> restricted to the texts of the listed values; and \<open>mock_client\<close> is the
  in-memory channel of the repository's tests (the \<^verbatim>\<open>jest.mock\<close> of \<^verbatim>\<open>DiscordClient\<close>), whose
  world is the list of the messages in the channel.
\<close>

fun stringify_plain :: "json \<Rightarrow> string"
  and stringify_elems :: "json list \<Rightarrow> string"
  and stringify_members :: "(string \<times> json) list \<Rightarrow> string" where
  "stringify_plain JNull = ''null''"
| "stringify_plain (JBool b) = (if b then ''true'' else ''false'')"
| "stringify_plain (JNum n) = show_int n"
| "stringify_plain (JStr s) = dquote # s @ [dquote]"
| "stringify_plain (JArr xs) = ''['' @ stringify_elems xs @ '']''"
| "stringify_plain (JObj kvs) = ''{'' @ stringify_members kvs @ ''}''"
| "stringify_elems [] = []"
| "stringify_elems [x] = stringify_plain x"
| "stringify_elems (x # y # ys) = stringify_plain x @ '','' @ stringify_elems (y # ys)"
| "stringify_members [] = []"
| "stringify_members [(k, v)] = dquote # k @ [dquote] @ '':'' @ stringify_plain v"
| "stringify_members ((k, v) # p # ps) =
     dquote # k @ [dquote] @ '':'' @ stringify_plain v @ '','' @ stringify_members (p # ps)"

definition parse_known :: "json list \<Rightarrow> string \<Rightarrow> json option" where
  "parse_known known text = map_of (map (\<lambda>v. (stringify_plain v, v)) known) text"

definition sample_platform :: "json list \<Rightarrow> platform" where
  "sample_platform known =
     \<lparr>JSON_parse = parse_known known,
      JSON_stringify = stringify_plain,
      regex_test = (\<lambda>pattern flags s. Inl (Error ''Invalid regular expression'')),
      localeCompare = (\<lambda>a b. if a < b then - 1 else if a = b then 0 else 1),
      string_to_number = (\<lambda>s. None)\<rparr>"

fun edit_first :: "string \<Rightarrow> string \<Rightarrow> message list \<Rightarrow> (message \<times> message list) option" where
  "edit_first i content [] = None"
| "edit_first i content (m # ms) =
     (if msg_id m = i then Some (m\<lparr>msg_content := content\<rparr>, m\<lparr>msg_content := content\<rparr> # ms)
      else (case edit_first i content ms of
              None \<Rightarrow> None
            | Some (m', ms') \<Rightarrow> Some (m', m # ms')))"

fun delete_first :: "string \<Rightarrow> message list \<Rightarrow> message list" where
  "delete_first i [] = []"
| "delete_first i (m # ms) = (if msg_id m = i then ms else m # delete_first i ms)"

definition mock_client :: "message list client" where
  "mock_client =
     \<lparr>editMessage = (\<lambda>messageId content w.
        (case messageId of
           Some (JStr i) \<Rightarrow>
             (case edit_first i content w of
                None \<Rightarrow> (Inl (Error ''Message not found''), w)
              | Some (m, w') \<Rightarrow> (Inr m, w'))
         | _ \<Rightarrow> (Inl (Error ''Message not found''), w))),
      deleteMessage = (\<lambda>messageId w.
        (case messageId of
           Some (JStr i) \<Rightarrow> (Inr (), delete_first i w)
         | _ \<Rightarrow> (Inr (), w))),
      getAllMessages = (\<lambda>w. (Inr w, w))\<rparr>"

text \<open>An encrypted payload as \<^verbatim>\<open>EncryptionService.encrypt\<close> returns it, and one with an
  \<^verbatim>\<open>_id\<close> beside the three fields.\<close>

definition encrypted_payload :: json where
  "encrypted_payload =
     JObj [(''data'', JStr ''9f86d081884c7d65''),
           (''iv'', JStr ''000102030405060708090a0b0c0d0e0f''),
           (''encrypted'', JBool True)]"

definition encrypted_payload_id :: json where
  "encrypted_payload_id =
     JObj [(''_id'', JStr ''x1''), (''data'', JStr ''9f86d081884c7d65''),
           (''iv'', JStr ''000102030405060708090a0b0c0d0e0f''),
           (''encrypted'', JBool True)]"

definition empty_store :: "message list \<Rightarrow> message list store" where
  "empty_store w = \<lparr>cache = [], lastCacheUpdate = 0, cacheTimeout = 30000, world = w, dispatched = []\<rparr>"

definition doc1 :: json where
  "doc1 = JObj [(''_id'', JStr ''1''), (''name'', JStr ''a''), (''_messageId'', JStr ''m1''), (''_timestamp'', JStr ''t1'')]"




text \<open>A cache of three documents with a filter and query options for it, and a cache of two
  documents of which the first is 1990 characters away from the ceiling.\<close>

definition docA :: json where
  "docA = JObj [(''_id'', JStr ''1''), (''name'', JStr ''a''), (''n'', JNum 3), (''_messageId'', JStr ''m1'')]"

definition docB :: json where
  "docB = JObj [(''_id'', JStr ''2''), (''name'', JStr ''b''), (''n'', JNum 2), (''_messageId'', JStr ''m2'')]"

definition docC :: json where
  "docC = JObj [(''_id'', JStr ''3''), (''name'', JStr ''a''), (''n'', JNum 1), (''_messageId'', JStr ''m3'')]"

definition store3 :: "message list store" where
  "store3 = \<lparr>cache = [(Some (JStr ''1''), docA), (Some (JStr ''2''), docB), (Some (JStr ''3''), docC)],
     lastCacheUpdate = 1000, cacheTimeout = 30000,
     world = [\<lparr>msg_id = ''m1'', msg_content = ''{}'', msg_timestamp = ''t1''\<rparr>,
              \<lparr>msg_id = ''m2'', msg_content = ''{}'', msg_timestamp = ''t2''\<rparr>,
              \<lparr>msg_id = ''m3'', msg_content = ''{}'', msg_timestamp = ''t3''\<rparr>],
     dispatched = []\<rparr>"

definition name_a :: json where
  "name_a = JObj [(''name'', JStr ''a'')]"

definition page_options :: query_options where
  "page_options = \<lparr>limit = Some 1, skip = Some 1, sort_option = Some (JObj [(''n'', JNum 1)]),
     projection = Some (JObj [(''name'', JNum 1)])\<rparr>"





text \<open>A stand-in for the module \<^verbatim>\<open>crypto\<close> that meets the contract, to run the encryption
  layer on: it is no cipher.\<close>

definition toy_crypto :: crypto where
  "toy_crypto =
     \<lparr>sha256 = (\<lambda>s. replicate 32 (CHR ''k'')),
      cipher = (\<lambda>a k v p. Inr (rev p @ v)),
      decipher = (\<lambda>a k v c. if drop (length c - length v) c = v then Inr (rev (take (length c - length v) c))
                             else Inl (Error ''bad decrypt''))\<rparr>"

section \<open>Validation of update specifications\<close>

lemma validate_inc_ok:
  "validate_inc es = Inr () \<longleftrightarrow> list_all (\<lambda>(key, v). typeof v = ''number'') es"
  by (induction es) (auto split: if_splits)

lemma validate_unset_ok:
  "validate_unset es = Inr () \<longleftrightarrow> list_all (\<lambda>(key, v). v = JNum 1 \<or> v = JBool True) es"
  by (induction es) (auto split: if_splits)

lemma validateUpdate_operators:
  assumes "list_ex startsWith_dollar (map fst kvs)"
  shows "validateUpdate (JObj kvs) = Inr () \<longleftrightarrow> operands_valid (JObj kvs)"
  using assms
  by (auto simp: validateUpdate_def isUpdateOperators_def keys_def validate_group_def
      operands_valid_def validate_inc_ok[symmetric] validate_unset_ok[symmetric]
      split: sum.splits option.splits)

lemma map_of_filter_key: "P k \<Longrightarrow> map_of (filter (\<lambda>p. P (fst p)) kvs) k = map_of kvs k"
  by (induction kvs) auto

lemma dollar_names:
  "startsWith_dollar ''$set''" "startsWith_dollar ''$unset''" "startsWith_dollar ''$inc''"
  "startsWith_dollar ''$push''" "startsWith_dollar ''$pull''" "startsWith_dollar ''$addToSet''"
  by (simp_all add: startsWith_dollar_def)

lemma list_ex_filter_self:
  "list_ex P (map fst (filter (\<lambda>p. P (fst p)) kvs)) = list_ex P (map fst kvs)"
  by (induction kvs) auto

lemma applyUpdate_ignores:
  assumes "list_ex startsWith_dollar (map fst kvs)"
  shows "applyUpdate d (JObj (filter (\<lambda>p. startsWith_dollar (fst p)) kvs)) = applyUpdate d (JObj kvs)"
  using assms
  by (simp add: applyUpdate_def isUpdateOperators_def keys_def when_present_def js_get_def
      map_of_filter_key[of startsWith_dollar] dollar_names list_ex_filter_self)

text \<open>
  Claim C3, as the code has it. \<^verbatim>\<open>validateUpdate\<close> never looks at the shape of the keys: an
  update specification that mixes operator keys with other keys is validated as an
  operator-style one. It is accepted exactly when every operand of \<^verbatim>\<open>$inc\<close> is a number and
  every operand of \<^verbatim>\<open>$unset\<close> is \<^verbatim>\<open>1\<close> or \<^verbatim>\<open>true\<close>, and \<^verbatim>\<open>applyUpdate\<close> then applies its
  operator keys and ignores the others.
\<close>

theorem validateUpdate_mixed:
  assumes "mixed_shape (JObj kvs)"
  shows "(validateUpdate (JObj kvs) = Inr () \<longleftrightarrow> operands_valid (JObj kvs)) \<and>
         applyUpdate d (JObj kvs) = applyUpdate d (JObj (filter (\<lambda>p. startsWith_dollar (fst p)) kvs))"
  using assms validateUpdate_operators[of kvs] applyUpdate_ignores[of kvs d]
  by (simp add: mixed_shape_def keys_def)

text \<open>The specification \<^verbatim>\<open>{ $set: { a: 1 }, b: 2 }\<close> has the mixed shape and is accepted: the
  rejection that claim C3 states does not happen.\<close>

theorem validateUpdate_mixed_counterexample:
  "mixed_shape mixed_update \<and> validateUpdate mixed_update = Inr ()"
  by (simp add: mixed_update_def mixed_shape_def keys_def startsWith_dollar_def validateUpdate_def
      isUpdateOperators_def validate_group_def js_get_def)

theorem validateUpdate_mixed_witness:
  "mixed_shape mixed_update \<and> operands_valid mixed_update \<and> validateUpdate mixed_update = Inr () \<and>
   applyUpdate (JObj [(''b'', JNum 0)]) mixed_update = JObj [(''b'', JNum 0), (''a'', JNum 1)]"
proof -
  have m: "mixed_shape (JObj [(''$set'', JObj [(''a'', JNum 1)]), (''b'', JNum 2)])"
    by (simp add: mixed_shape_def keys_def startsWith_dollar_def)
  have o: "operands_valid mixed_update"
    by (simp add: mixed_update_def operands_valid_def js_get_def)
  have a: "applyUpdate (JObj [(''b'', JNum 0)]) (JObj [(''$set'', JObj [(''a'', JNum 1)])])
           = JObj [(''b'', JNum 0), (''a'', JNum 1)]"
    by code_simp
  from validateUpdate_mixed[OF m, of "JObj [(''b'', JNum 0)]"] m o a show ?thesis
    by (simp add: mixed_update_def startsWith_dollar_def)
qed

section \<open>The increment operator\<close>

text \<open>
  Claim C4 at the document \<^verbatim>\<open>{ _id: "1", flag: false }\<close> and the update
  \<^verbatim>\<open>{ $inc: { flag: 5 } }\<close>: the value at \<^verbatim>\<open>flag\<close> is no number, and the claim has the update
  leave it alone. The code reads the current value as \<^verbatim>\<open>getNestedValue(...) || 0\<close>, which
  turns the falsy \<^verbatim>\<open>false\<close> into \<^verbatim>\<open>0\<close> before the test \<^verbatim>\<open>typeof currentValue === 'number'\<close>,
  and writes \<^verbatim>\<open>5\<close> over it.
\<close>

theorem applyUpdate_inc_false:
  "applyUpdate (JObj [(''_id'', JStr ''1''), (''flag'', JBool False)])
               (JObj [(''$inc'', JObj [(''flag'', JNum 5)])])
     = JObj [(''_id'', JStr ''1''), (''flag'', JNum 5)]"
  by code_simp

section \<open>Paths\<close>

lemma split_dot_first: "\<exists>rest. split_dot path = first_segment path # rest"
  by (induction path) (auto simp: first_segment_def split: list.splits)

lemma foldl_get_step_None: "foldl get_step None ks = None"
  by (induction ks) (simp_all add: get_step_def)

lemma foldl_get_step: "foldl get_step (Some c) ks = resolve c ks"
  by (induction ks arbitrary: c) (auto simp: get_step_def foldl_get_step_None split: option.splits)

lemma getNestedValue_resolve: "getNestedValue d path = resolve d (split_dot path)"
  by (simp add: getNestedValue_def foldl_get_step)

lemma map_of_upd_same: "map_of (upd k y kvs) k = Some y"
  by (induction kvs) auto


lemma map_of_assign_index_same:
  "map_of (indexed i xs) k = Some x \<Longrightarrow> map_of (indexed i (assign_index i xs k y)) k = Some y"
  by (induction xs arbitrary: i) (auto split: if_splits)



lemma js_get_assign_same:
  "is_object c \<Longrightarrow> js_get c k = Some x \<Longrightarrow> js_get (assign c k y) k = Some y"
  by (cases c) (auto simp: js_get_def map_of_upd_same map_of_assign_index_same)



lemma is_object_assign: "is_object c \<Longrightarrow> is_object (assign c k y)"
  by (cases c) auto

lemma is_object_truthy: "is_object c \<Longrightarrow> truthy c"
  by (cases c) auto

lemma map_of_indexed_chars: "map_of (indexed i (map (\<lambda>c. JStr [c]) s)) k = Some x \<Longrightarrow> \<not> is_object x"
  by (induction s arbitrary: i) (auto split: if_splits)

lemma js_get_primitive: "\<not> is_object c \<Longrightarrow> js_get c k = Some x \<Longrightarrow> \<not> is_object x"
  by (cases c) (auto simp: js_get_def dest: map_of_indexed_chars)

lemma resolve_primitive:
  "\<not> is_object c \<Longrightarrow> resolve c ks = Some x \<Longrightarrow> \<not> is_object x"
proof (induction ks arbitrary: c)
  case Nil
  then show ?case by simp
next
  case (Cons k ks)
  then show ?case
    by (auto split: if_splits option.splits dest: js_get_primitive)
qed

lemma resolve_set_path:
  "ks \<noteq> [] \<Longrightarrow> is_object cur \<Longrightarrow> resolve cur ks = Some x \<Longrightarrow> is_object x \<Longrightarrow>
   resolve (set_path cur ks y) ks = Some y"
proof (induction cur ks y rule: set_path.induct)
  case (1 current v)
  then show ?case by simp
next
  case (2 current k v)
  then show ?case
    by (auto simp: is_object_assign is_object_truthy js_get_assign_same
        split: if_splits option.splits)
next
  case (3 current k k' ks v)
  from "3.prems" obtain c where c: "js_get current k = Some c"
    and rest: "resolve c (k' # ks) = Some x"
    by (auto split: if_splits option.splits)
  from rest "3.prems"(4) have oc: "is_object c"
    using resolve_primitive by blast
  have d: "descend current k = c"
    using c oc by (simp add: descend_def)
  have ih: "resolve (set_path c (k' # ks) v) (k' # ks) = Some v"
    using "3.IH" d oc rest "3.prems"(4) by simp
  have g: "js_get (assign current k (set_path c (k' # ks) v)) k = Some (set_path c (k' # ks) v)"
    using js_get_assign_same[OF "3.prems"(2) c] .
  have t: "truthy (assign current k (set_path c (k' # ks) v))"
    using "3.prems"(2) by (simp add: is_object_assign is_object_truthy)
  show ?case
    using ih g d t by (simp del: set_path.simps(3) add: set_path.simps(3)[of current k k' ks v])
qed

lemma split_dot_nonempty: "split_dot path \<noteq> []"
  using split_dot_first[of path] by auto

lemma getNestedValue_setNestedValue:
  "is_object d \<Longrightarrow> getNestedValue d path = Some x \<Longrightarrow> is_object x \<Longrightarrow>
   getNestedValue (setNestedValue d path y) path = Some y"
  unfolding getNestedValue_resolve setNestedValue_def
  by (rule resolve_set_path[OF split_dot_nonempty])

lemma deepEqual_scalar: "\<not> is_object v \<Longrightarrow> deepEqual item v = (item = v)"
  by (cases item; cases v) auto

lemma pull_after_push:
  assumes "\<not> is_object v" "v \<notin> set a"
  shows "filter (\<lambda>item. \<not> deepEqual item v) (a @ [v]) = a"
  using assms by (auto simp: deepEqual_scalar filter_id_conv)

lemma applyUpdate_push_spec: "applyUpdate (JObj kvs) (push_spec f v) = push_one (JObj kvs) f v"
  by (simp add: applyUpdate_def push_spec_def isUpdateOperators_def keys_def startsWith_dollar_def
      when_present_def js_get_def apply_push_def)

lemma applyUpdate_pull_spec: "applyUpdate (JObj kvs) (pull_spec f v) = pull_one (JObj kvs) f v"
  by (simp add: applyUpdate_def pull_spec_def isUpdateOperators_def keys_def startsWith_dollar_def
      when_present_def js_get_def apply_pull_def)

lemma setNestedValue_JObj: "\<exists>kvs'. setNestedValue (JObj kvs) path y = JObj kvs'"
proof -
  obtain rest where "split_dot path = first_segment path # rest"
    using split_dot_first by blast
  then show ?thesis
    by (cases rest) (simp_all add: setNestedValue_def)
qed

section \<open>Push and pull\<close>

text \<open>
  Claim C5, as the code has it. When the field \<open>f\<close> of a document holds an array \<open>a\<close> and
  \<open>v\<close> is a scalar (not an object, not an array) that is not an element of \<open>a\<close>, then
  \<^verbatim>\<open>{ $push: { f: v } }\<close> followed by \<^verbatim>\<open>{ $pull: { f: v } }\<close> leaves the array \<open>a\<close> at \<open>f\<close>.
  \<^verbatim>\<open>$pull\<close> removes every element equal to \<open>v\<close>, so an array that already holds \<open>v\<close> is not
  restored.
\<close>

theorem push_then_pull:
  assumes "getNestedValue (JObj kvs) f = Some (JArr a)"
    and "\<not> is_object v" and "v \<notin> set a"
  shows "getNestedValue (applyUpdate (applyUpdate (JObj kvs) (push_spec f v)) (pull_spec f v)) f
         = Some (JArr a)"
proof -
  let ?d1 = "setNestedValue (JObj kvs) f (JArr (a @ [v]))"
  obtain kvs1 where k1: "?d1 = JObj kvs1"
    using setNestedValue_JObj by blast
  have p: "applyUpdate (JObj kvs) (push_spec f v) = ?d1"
    using assms(1) by (simp add: applyUpdate_push_spec push_one_def)
  have g1: "getNestedValue ?d1 f = Some (JArr (a @ [v]))"
    using getNestedValue_setNestedValue[of "JObj kvs" f "JArr a"] assms(1) by simp
  have q: "applyUpdate ?d1 (pull_spec f v) = setNestedValue ?d1 f (JArr a)"
    using g1 pull_after_push[OF assms(2,3)]
    by (simp add: k1 applyUpdate_pull_spec pull_one_def)
  have "getNestedValue (setNestedValue ?d1 f (JArr a)) f = Some (JArr a)"
    using getNestedValue_setNestedValue[of ?d1 f "JArr (a @ [v])"] g1 k1 by simp
  then show ?thesis
    by (simp add: p q)
qed

text \<open>On \<^verbatim>\<open>{ tags: [1] }\<close> with \<^verbatim>\<open>v = 1\<close> the push gives \<^verbatim>\<open>[1, 1]\<close> and the pull leaves \<^verbatim>\<open>[]\<close>,
  not the array \<^verbatim>\<open>[1]\<close> that claim C5 promises.\<close>

theorem push_then_pull_counterexample:
  "getNestedValue (JObj [(''tags'', JArr [JNum 1])]) ''tags'' = Some (JArr [JNum 1]) \<and>
   getNestedValue
     (applyUpdate (applyUpdate (JObj [(''tags'', JArr [JNum 1])]) (push_spec ''tags'' (JNum 1)))
        (pull_spec ''tags'' (JNum 1))) ''tags'' = Some (JArr [])"
  by code_simp

theorem push_then_pull_witness:
  "getNestedValue (JObj [(''tags'', JArr [JNum 1, JNum 2])]) ''tags'' = Some (JArr [JNum 1, JNum 2]) \<and>
   \<not> is_object (JNum 3) \<and> JNum 3 \<notin> set [JNum 1, JNum 2] \<and>
   getNestedValue
     (applyUpdate (applyUpdate (JObj [(''tags'', JArr [JNum 1, JNum 2])]) (push_spec ''tags'' (JNum 3)))
        (pull_spec ''tags'' (JNum 3))) ''tags'' = Some (JArr [JNum 1, JNum 2])"
proof -
  have g: "getNestedValue (JObj [(''tags'', JArr [JNum 1, JNum 2])]) ''tags'' = Some (JArr [JNum 1, JNum 2])"
    by code_simp
  have s: "\<not> is_object (JNum 3)"
    by simp
  have n: "JNum 3 \<notin> set [JNum 1, JNum 2]"
    by simp
  from push_then_pull[OF g s n] g s n show ?thesis
    by simp
qed

section \<open>Fields that an update does not address\<close>























lemma handleError_idem: "handleError (handleError e) = handleError e"
  by (cases e) (simp_all add: handleError_def)






section \<open>Reloading the cache\<close>

text \<open>
  Claim C1 on a channel whose one message holds an encrypted payload. The store of
  \<^verbatim>\<open>discord-db.ts\<close> has no encryption key and never asks \<^verbatim>\<open>isEncrypted\<close>: the payload parses
  as an object without \<^verbatim>\<open>_id\<close>, and the reload passes it over and returns no document and
  no error. A payload that carries an \<^verbatim>\<open>_id\<close> beside its three fields comes back as a
  document, ciphertext and all.
\<close>

theorem reload_skips_encrypted_payload:
  "isEncrypted encrypted_payload \<and> isEncrypted encrypted_payload_id \<and>
   JSON_parse (sample_platform [encrypted_payload, encrypted_payload_id]) (stringify_plain encrypted_payload)
     = Some encrypted_payload \<and>
   JSON_parse (sample_platform [encrypted_payload, encrypted_payload_id]) (stringify_plain encrypted_payload_id)
     = Some encrypted_payload_id \<and>
   getAllDocuments (sample_platform [encrypted_payload, encrypted_payload_id]) mock_client 1000
     (empty_store [\<lparr>msg_id = ''m1'', msg_content = stringify_plain encrypted_payload, msg_timestamp = ''t1''\<rparr>])
   = (Inr [],
      \<lparr>cache = [], lastCacheUpdate = 1000, cacheTimeout = 30000,
       world = [\<lparr>msg_id = ''m1'', msg_content = stringify_plain encrypted_payload, msg_timestamp = ''t1''\<rparr>],
       dispatched = [GetAllMessages]\<rparr>) \<and>
   fst (getAllDocuments (sample_platform [encrypted_payload, encrypted_payload_id]) mock_client 1000
     (empty_store [\<lparr>msg_id = ''m2'', msg_content = stringify_plain encrypted_payload_id, msg_timestamp = ''t2''\<rparr>]))
   = Inr [JObj [(''_id'', JStr ''x1''), (''data'', JStr ''9f86d081884c7d65''),
                (''iv'', JStr ''000102030405060708090a0b0c0d0e0f''), (''encrypted'', JBool True),
                (''_messageId'', JStr ''m2''), (''_timestamp'', JStr ''t2'')]]"
  by code_simp

section \<open>The field-level negation\<close>

lemma first_segment_dollar: "startsWith_dollar key \<Longrightarrow> first_segment key \<noteq> ''docValue''"
  by (cases key) (auto simp: startsWith_dollar_def first_segment_def)

lemma getNestedValue_wrap:
  assumes "startsWith_dollar key"
  shows "getNestedValue (wrap_docValue v) key = None"
proof -
  obtain rest where r: "split_dot key = first_segment key # rest"
    using split_dot_first by blast
  show ?thesis
    using first_segment_dollar[OF assms]
    by (cases v) (simp_all add: getNestedValue_resolve r wrap_docValue_def js_get_def)
qed

lemma evaluateFieldFilter_wrap:
  assumes "startsWith_dollar key"
  shows "evaluateFieldFilter P (wrap_docValue v) key val = evaluateFieldFilter P (wrap_docValue v') key val"
  by (cases val) (simp_all add: getNestedValue_wrap[OF assms])

lemma matches_entries_wrap:
  assumes "list_all (\<lambda>(k, v). operator_key k) ops"
  shows "matches_entries P (wrap_docValue v) ops = matches_entries P (wrap_docValue v') ops"
  using assms
proof (induction ops)
  case Nil
  then show ?case by simp
next
  case (Cons e ops)
  obtain k val where e: "e = (k, val)" by (cases e)
  from Cons.prems e have k: "operator_key k" by simp
  then have l: "k \<noteq> ''$and''" "k \<noteq> ''$or''" "k \<noteq> ''$not''" "startsWith_dollar k"
    by (simp_all add: operator_key_def)
  from Cons have ih: "matches_entries P (wrap_docValue v) ops = matches_entries P (wrap_docValue v') ops"
    by simp
  show ?case
    by (simp add: e l ih evaluateFieldFilter_wrap[OF l(4), of P v val v'] split: sum.splits)
qed

lemma matchesFilter_wrap:
  assumes "list_all (\<lambda>(k, v). operator_key k) ops"
  shows "matchesFilter P (wrap_docValue v) (JObj ops) = matchesFilter P (wrap_docValue v') (JObj ops)"
  using matches_entries_wrap[OF assms] by simp

lemma evaluateFieldFilter_literal:
  assumes "startsWith_dollar key" "literal val"
  shows "evaluateFieldFilter P (wrap_docValue v) key val = Inr False"
  using assms(2) by (cases val) (simp_all add: getNestedValue_wrap[OF assms(1)] compareValues_def)

lemma matches_entries_literal:
  assumes "ops \<noteq> []" "list_all (\<lambda>(k, v). operator_key k) ops" "list_all (\<lambda>(k, v). literal v) ops"
  shows "matches_entries P (wrap_docValue v) ops = Inr False"
proof -
  from assms(1) obtain k val rest where o: "ops = (k, val) # rest"
    by (cases ops) auto
  with assms have k: "operator_key k" and l: "literal val" by simp_all
  from k have n: "k \<noteq> ''$and''" "k \<noteq> ''$or''" "k \<noteq> ''$not''" "startsWith_dollar k"
    by (simp_all add: operator_key_def)
  show ?thesis
    by (simp add: o n evaluateFieldFilter_literal[OF n(4) l])
qed

lemma field_not_eval:
  assumes "f \<noteq> ''$and''" "f \<noteq> ''$or''" "f \<noteq> ''$not''"
  shows "matchesFilter P d (field_not f op) =
         (case matchesFilter P (wrap_docValue (getNestedValue d f)) op of
            Inl e \<Rightarrow> Inl e
          | Inr b \<Rightarrow> Inr (\<not> b))"
  using assms by (simp add: field_not_def js_get_def split: sum.splits)

text \<open>
  Claim C9, as the code has it. For a field path \<open>f\<close> and an object \<open>op\<close> whose keys are
  operator keys, \<^verbatim>\<open>evaluateOperators\<close> evaluates \<^verbatim>\<open>$not\<close> as
  \<^verbatim>\<open>!matchesFilter({ docValue }, op)\<close>, which reads the operators of \<open>op\<close> as field names of
  the document \<^verbatim>\<open>{ docValue }\<close>: \<open>op\<close> is never applied to the value at \<open>f\<close>, and the filter
  \<^verbatim>\<open>{ f: { $not: op } }\<close> gives the same answer on every document. The answer is \<^verbatim>\<open>true\<close>
  when \<open>op\<close> is not empty and its operands are literals, as in \<^verbatim>\<open>{ $lt: n }\<close>.
\<close>

theorem field_not_ignores_value:
  assumes "f \<noteq> ''$and''" "f \<noteq> ''$or''" "f \<noteq> ''$not''"
    and "list_all (\<lambda>(k, v). operator_key k) ops"
  shows "matchesFilter P d (field_not f (JObj ops)) = matchesFilter P d' (field_not f (JObj ops)) \<and>
         (ops \<noteq> [] \<and> list_all (\<lambda>(k, v). literal v) ops \<longrightarrow>
          matchesFilter P d (field_not f (JObj ops)) = Inr True)"
proof -
  have "matchesFilter P (wrap_docValue (getNestedValue d f)) (JObj ops)
        = matchesFilter P (wrap_docValue (getNestedValue d' f)) (JObj ops)"
    using assms(4) by (rule matchesFilter_wrap)
  moreover have "matchesFilter P (wrap_docValue (getNestedValue d f)) (JObj ops) = Inr False"
    if "ops \<noteq> []" "list_all (\<lambda>(k, v). literal v) ops"
    using that matches_entries_literal[OF that(1) assms(4) that(2)] by simp
  ultimately show ?thesis
    by (simp add: field_not_eval[OF assms(1,2,3)])
qed

text \<open>With an operand that is an object the answer is not \<^verbatim>\<open>true\<close>: the filter
  \<^verbatim>\<open>{ age: { $not: { $eq: { a: 1 } } } }\<close> is \<^verbatim>\<open>false\<close> on a document, against claim C9, which
  has the field-level \<^verbatim>\<open>$not\<close> true for every operator object.\<close>

theorem field_not_ignores_value_counterexample:
  "operator_key ''$eq'' \<and>
   matchesFilter (sample_platform []) (JObj [(''_id'', JStr ''1''), (''age'', JNum 30)])
     (field_not ''age'' (JObj [(''$eq'', JObj [(''a'', JNum 1)])])) = Inr False"
  by code_simp

theorem field_not_ignores_value_witness:
  "''age'' \<noteq> ''$and'' \<and> ''age'' \<noteq> ''$or'' \<and> ''age'' \<noteq> ''$not'' \<and>
   list_all (\<lambda>(k, v). operator_key k) [(''$lt'', JNum 18)] \<and>
   [(''$lt'', JNum 18)] \<noteq> [] \<and> list_all (\<lambda>(k, v). literal v) [(''$lt'', JNum 18)] \<and>
   matchesFilter (sample_platform []) (JObj [(''age'', JNum 10)]) (field_not ''age'' (JObj [(''$lt'', JNum 18)]))
   = matchesFilter (sample_platform []) (JObj [(''age'', JNum 30)]) (field_not ''age'' (JObj [(''$lt'', JNum 18)])) \<and>
   matchesFilter (sample_platform []) (JObj [(''age'', JNum 10)]) (field_not ''age'' (JObj [(''$lt'', JNum 18)]))
   = Inr True"
proof -
  have n: "''age'' \<noteq> ''$and''" "''age'' \<noteq> ''$or''" "''age'' \<noteq> ''$not''"
    by simp_all
  have k: "list_all (\<lambda>(k, v). operator_key k) [(''$lt'', JNum 18)]"
    by (simp add: operator_key_def startsWith_dollar_def)
  have l: "list_all (\<lambda>(k, v). literal v) [(''$lt'', JNum 18)]"
    by simp
  from field_not_ignores_value[OF n k, of "sample_platform []" "JObj [(''age'', JNum 10)]" "JObj [(''age'', JNum 30)]"]
    n k l
  show ?thesis
    by auto
qed

section \<open>The stages of \<^verbatim>\<open>find\<close>\<close>

lemma length_insert_by: "length (insert_by cmp x ys) = Suc (length ys)"
  by (induction ys) auto

lemma length_js_sort: "length (js_sort cmp xs) = length xs"
  unfolding js_sort_def by (induction xs) (auto simp: length_insert_by)

lemma length_sortDocuments: "length (sortDocuments P docs so) = length docs"
  by (simp add: sortDocuments_def length_js_sort)

lemma filter_docs_matching:
  "\<forall>d\<in>set docs. \<exists>b. matchesFilter P d fltr = Inr b \<Longrightarrow> filter_docs P fltr docs = Inr (matching P fltr docs)"
  by (induction docs) (auto simp: matching_def)

lemma filter_docs_Inr:
  "filter_docs P fltr docs = Inr ms \<Longrightarrow> ms = matching P fltr docs"
  by (induction docs arbitrary: ms) (auto simp: matching_def split: sum.splits if_splits)

text \<open>
  Claim C7. When the documents are there (the cache is fresh or the reload succeeds) and
  the filter evaluates on each of them, \<^verbatim>\<open>find\<close> returns a result whose total is the number
  of documents that match the filter, whatever \<^verbatim>\<open>skip\<close>, \<^verbatim>\<open>limit\<close> and \<^verbatim>\<open>projection\<close> are,
  and whose documents are the matching ones sorted, then paginated, then projected.
\<close>

theorem find_total:
  assumes "getAllDocuments P C now s = (Inr docs, s1)"
    and "\<forall>d\<in>set docs. \<exists>b. matchesFilter P d fltr = Inr b"
  shows "\<exists>r. find_docs P C now fltr options s = (Inr r, s1) \<and>
           total r = length (matching P fltr docs) \<and>
           documents r =
             (let sorted = (if truthy_opt (sort_option options)
                            then sortDocuments P (matching P fltr docs) (the (sort_option options))
                            else matching P fltr docs);
                  page = applyPagination sorted (skip options) (limit options)
              in if truthy_opt (projection options)
                 then applyProjection page (the (projection options))
                 else page)"
  using assms(1) filter_docs_matching[OF assms(2)]
  by (simp add: find_docs_def Let_def length_sortDocuments)

theorem find_total_witness:
  "getAllDocuments (sample_platform []) mock_client 2000 store3 = (Inr [docA, docB, docC], store3) \<and>
   matchesFilter (sample_platform []) docA name_a = Inr True \<and>
   matchesFilter (sample_platform []) docB name_a = Inr False \<and>
   matchesFilter (sample_platform []) docC name_a = Inr True \<and>
   (\<exists>r. find_docs (sample_platform []) mock_client 2000 name_a page_options store3 = (Inr r, store3) \<and>
        total r = 2 \<and> documents r = [JObj [(''name'', JStr ''a''), (''_id'', JStr ''1'')]])"
proof -
  have g: "getAllDocuments (sample_platform []) mock_client 2000 store3 = (Inr [docA, docB, docC], store3)"
    by code_simp
  have e: "matchesFilter (sample_platform []) docA name_a = Inr True"
    "matchesFilter (sample_platform []) docB name_a = Inr False"
    "matchesFilter (sample_platform []) docC name_a = Inr True"
    by code_simp+
  then have m: "\<forall>d\<in>set [docA, docB, docC]. \<exists>b. matchesFilter (sample_platform []) d name_a = Inr b"
    by auto
  have c: "matching (sample_platform []) name_a [docA, docB, docC] = [docA, docC]"
    by code_simp
  have d: "(let sorted = (if truthy_opt (sort_option page_options)
                            then sortDocuments (sample_platform []) [docA, docC] (the (sort_option page_options))
                            else [docA, docC]);
                  page = applyPagination sorted (skip page_options) (limit page_options)
              in if truthy_opt (projection page_options)
                 then applyProjection page (the (projection page_options))
                 else page) = [JObj [(''name'', JStr ''a''), (''_id'', JStr ''1'')]]"
    by code_simp
  from find_total[OF g m, of page_options] obtain r where
    r: "find_docs (sample_platform []) mock_client 2000 name_a page_options store3 = (Inr r, store3)"
      "total r = length (matching (sample_platform []) name_a [docA, docB, docC])"
      "documents r =
         (let sorted = (if truthy_opt (sort_option page_options)
                        then sortDocuments (sample_platform [])
                               (matching (sample_platform []) name_a [docA, docB, docC])
                               (the (sort_option page_options))
                        else matching (sample_platform []) name_a [docA, docB, docC]);
              page = applyPagination sorted (skip page_options) (limit page_options)
          in if truthy_opt (projection page_options)
             then applyProjection page (the (projection page_options))
             else page)"
    by blast
  have t: "total r = 2"
    using r(2) by (simp add: c)
  have p: "documents r = [JObj [(''name'', JStr ''a''), (''_id'', JStr ''1'')]]"
    using r(3) d unfolding c by simp
  from r(1) t p g e show ?thesis
    by blast
qed

section \<open>Operations that match no document\<close>






section \<open>Documents that grow past the ceiling\<close>





section \<open>Encryption and decryption\<close>

lemma hex_value_digits: "list_all (\<lambda>n. hex_value (hex_digit n) = Some n) [0 ..< 16]"
  by code_simp

lemma hex_value_digit: "n < 16 \<Longrightarrow> hex_value (hex_digit n) = Some n"
  using hex_value_digits by (simp add: list_all_iff)

lemma byte_split: "char_of (16 * (of_char b div 16) + (of_char b :: nat) mod 16) = b"
  by simp

lemma of_char_div: "(of_char b :: nat) div 16 < 16"
proof -
  have "(of_char b :: nat) < 16 * 16" using nat_of_char_less_256[of b] by simp
  then show ?thesis by (rule less_mult_imp_div_less)
qed

lemma from_hex_to_hex: "from_hex (to_hex bs) = bs"
  by (induction bs) (simp_all add: to_hex_def hex_value_digit of_char_div)

text \<open>
  Claim C8. Let the module \<^verbatim>\<open>crypto\<close> keep its contract, and let \<open>random_iv\<close> be the 16
  bytes that \<^verbatim>\<open>randomBytes\<close> returns. Then for every plaintext and every passphrase
  \<^verbatim>\<open>encrypt\<close> returns a payload, \<^verbatim>\<open>decrypt\<close> with the same passphrase gives the plaintext
  back, and the payload has the shape that \<^verbatim>\<open>isEncrypted\<close> tests. The part of the
  repository in this is that both sides derive the same key, that the vector travels in
  the payload, and that the hexadecimal strings of the payload decode to the bytes they
  were written from.
\<close>

theorem encrypt_then_decrypt:
  assumes "crypto_contract cr" and "length random_iv = 16"
  shows "\<exists>payload. encrypt cr random_iv plaintext passphrase = Inr payload \<and>
           decrypt cr payload passphrase = Inr plaintext \<and>
           isEncrypted (payload_json payload)"
proof -
  let ?k = "sha256 cr passphrase"
  from assms(1) have l: "length ?k = 32"
    by (simp add: crypto_contract_def)
  with assms obtain c where c: "cipher cr ''aes-256-cbc'' ?k random_iv plaintext = Inr c"
    unfolding crypto_contract_def by blast
  with assms(1) have d: "decipher cr ''aes-256-cbc'' ?k random_iv c = Inr plaintext"
    unfolding crypto_contract_def by blast
  show ?thesis
    using c d
    by (simp add: encrypt_def decrypt_def service_encrypt_def service_decrypt_def
        new_EncryptionService_def deriveKey_def from_hex_to_hex payload_json_def isEncrypted_def js_get_def)
qed

lemma toy_contract: "crypto_contract toy_crypto"
  by (simp add: crypto_contract_def toy_crypto_def)

theorem encrypt_then_decrypt_witness:
  "crypto_contract toy_crypto \<and> length ''0123456789abcdef'' = 16 \<and>
   (\<exists>payload. encrypt toy_crypto ''0123456789abcdef'' [] ''secret'' = Inr payload \<and>
      decrypt toy_crypto payload ''secret'' = Inr [] \<and> isEncrypted (payload_json payload)) \<and>
   (\<exists>payload. encrypt toy_crypto ''0123456789abcdef'' (stringify_plain doc1) ''secret'' = Inr payload \<and>
      decrypt toy_crypto payload ''secret'' = Inr (stringify_plain doc1) \<and> isEncrypted (payload_json payload))"
proof -
  have l: "length ''0123456789abcdef'' = 16"
    by simp
  from encrypt_then_decrypt[OF toy_contract l, of "[]" "''secret''"]
    encrypt_then_decrypt[OF toy_contract l, of "stringify_plain doc1" "''secret''"] toy_contract l
  show ?thesis
    by blast
qed

end
